theory Spec2Isabelle
  imports
    Complex_Main
    "HOL-Library.Sublist"
    "HOL-Library.Multiset"
    "HOL-Library.Char_ord"
    "HOL-Library.List_Lexorder"
    "HOL-Library.Log_Nat"
begin

section \<open>The movie backend of \<^verbatim>\<open>src/Backend/server.js\<close>\<close>

text \<open>
  The server keeps two pieces of process state: the array \<^verbatim>\<open>movies\<close> (the sample data
  the handlers fall back to) and the handle \<^verbatim>\<open>connection\<close>. Every handler first asks
  the database through \<^verbatim>\<open>executeQuery\<close> and uses \<^verbatim>\<open>movies\<close> when that gives
  nothing. The database is outside the program: the model takes what the driver answers to
  each statement as an input, and each handler is a function from the request's parameters
  and the state to the response and the new state.

  Conventions of the embedding.
  \<^item> JavaScript numbers that are counts, ids and offsets are \<open>int\<close>; a value that may be
    \<^verbatim>\<open>NaN\<close> is an \<open>int option\<close> with \<open>None\<close> for \<^verbatim>\<open>NaN\<close>. Where the program
    divides and adds such numbers the model rounds as double precision does
    (\<open>to_double\<close> below). Ratings are rationals: the comparator only looks at the sign of a
    difference of two ratings.
  \<^item> Strings are ASCII; \<^verbatim>\<open>toLowerCase\<close> maps \<^verbatim>\<open>A\<close>..\<^verbatim>\<open>Z\<close> to
    \<^verbatim>\<open>a\<close>..\<^verbatim>\<open>z\<close>, and strings compare by character code.
  \<^item> A query parameter that the handler tests for truthiness is a \<open>string option\<close>
    (\<open>None\<close> when the request does not carry it).
\<close>

subsection \<open>Data\<close>

record movie =
  id' :: int
  title :: string
  year :: int
  genre :: string
  rating :: rat
  duration :: string
  description :: string
  poster_url :: string
  trailer_url :: string

text \<open>The array literal \<^verbatim>\<open>movies\<close>, lines 62 to 129. The bucket name comes from the
  environment variable \<^verbatim>\<open>S3_BUCKET_NAME\<close> and is a parameter here.\<close>

definition media_url :: "string \<Rightarrow> string \<Rightarrow> string" where
  "media_url S3_BUCKET path = ''https://'' @ S3_BUCKET @ ''.s3.amazonaws.com/'' @ path"

definition movies_init :: "string \<Rightarrow> movie list" where
  "movies_init S3_BUCKET =
    [ \<lparr> id' = 1, title = ''Quantum Nexus'', year = 2024, genre = ''sci-fi'', rating = 4.8,
        duration = ''142 min'',
        description = ''A mind-bending journey through parallel dimensions'',
        poster_url = media_url S3_BUCKET ''posters/quantum-nexus.jpg'',
        trailer_url = media_url S3_BUCKET ''trailers/quantum-nexus.mp4'' \<rparr>,
      \<lparr> id' = 2, title = ''Shadow Protocol'', year = 2024, genre = ''action'', rating = 4.5,
        duration = ''128 min'',
        description = ''Elite agents face their greatest challenge'',
        poster_url = media_url S3_BUCKET ''posters/shadow-protocol.jpg'',
        trailer_url = media_url S3_BUCKET ''trailers/shadow-protocol.mp4'' \<rparr>,
      \<lparr> id' = 3, title = ''The Last Symphony'', year = 2024, genre = ''drama'', rating = 4.7,
        duration = ''156 min'',
        description = ''A musician's final masterpiece'',
        poster_url = media_url S3_BUCKET ''posters/last-symphony.jpg'',
        trailer_url = media_url S3_BUCKET ''trailers/last-symphony.mp4'' \<rparr>,
      \<lparr> id' = 4, title = ''Cosmic Comedy Club'', year = 2024, genre = ''comedy'', rating = 4.2,
        duration = ''98 min'',
        description = ''Laughs from across the galaxy'',
        poster_url = media_url S3_BUCKET ''posters/cosmic-comedy.jpg'',
        trailer_url = media_url S3_BUCKET ''trailers/cosmic-comedy.mp4'' \<rparr>,
      \<lparr> id' = 5, title = ''Digital Phantom'', year = 2024, genre = ''thriller'', rating = 4.6,
        duration = ''134 min'',
        description = ''Reality and virtuality collide'',
        poster_url = media_url S3_BUCKET ''posters/digital-phantom.jpg'',
        trailer_url = media_url S3_BUCKET ''trailers/digital-phantom.mp4'' \<rparr>,
      \<lparr> id' = 6, title = ''Neon Nights'', year = 2024, genre = ''action'', rating = 4.4,
        duration = ''118 min'',
        description = ''Cyberpunk adventure in Neo-Tokyo'',
        poster_url = media_url S3_BUCKET ''posters/neon-nights.jpg'',
        trailer_url = media_url S3_BUCKET ''trailers/neon-nights.mp4'' \<rparr> ]"

subsection \<open>The JavaScript library functions the handlers call\<close>

text \<open>Truthiness of a value that is \<^verbatim>\<open>undefined\<close> or a string: only a non-empty
  string is truthy.\<close>

definition truthy :: "string option \<Rightarrow> bool" where
  "truthy v = (case v of None \<Rightarrow> False | Some t \<Rightarrow> t \<noteq> [])"

definition lower_char :: "char \<Rightarrow> char" where
  "lower_char c =
     (if CHR ''A'' \<le> c \<and> c \<le> CHR ''Z'' then char_of (of_char c + (32::nat)) else c)"

definition toLowerCase :: "string \<Rightarrow> string" where
  "toLowerCase t = map lower_char t"

text \<open>\<^verbatim>\<open>s.includes(t)\<close>: \<open>t\<close> occurs in \<open>s\<close> as a contiguous run of characters.\<close>

fun includes' :: "string \<Rightarrow> string \<Rightarrow> bool" where
  "includes' [] t = (t = [])"
| "includes' (c # cs) t = (prefix t (c # cs) \<or> includes' cs t)"

text \<open>Double precision. A finite double other than 0 is \<open>m * 2 ^ e\<close> with an integer \<open>m\<close>,
  \<open>2 ^ 52 \<le> \<bar>m\<bar> < 2 ^ 53\<close>; an operation answers the double nearest to the exact result,
  the one with the even \<open>m\<close> when two are equally near. \<open>exponent q\<close> is the \<open>e\<close> with
  \<open>2 ^ e \<le> \<bar>q\<bar> < 2 ^ (e + 1)\<close>. The range of the exponent is not limited here. The numbers
  rounded below are integers that \<^verbatim>\<open>parseInt\<close> read and quotients of two of them; an
  integer of \<open>2 ^ 1024\<close> or more, which JavaScript holds as \<^verbatim>\<open>Infinity\<close>, is outside
  the model.\<close>

definition round_half_even :: "rat \<Rightarrow> int" where
  "round_half_even z =
     (let f = \<lfloor>z\<rfloor>; d = z - of_int f
      in if d < 1 / 2 then f else if 1 / 2 < d then f + 1 else if even f then f else f + 1)"

definition exponent :: "rat \<Rightarrow> int" where
  "exponent q =
     (if 1 \<le> \<bar>q\<bar> then int (floorlog 2 (nat \<lfloor>\<bar>q\<bar>\<rfloor>)) - 1
      else - int (floorlog 2 (nat (\<lceil>1 / \<bar>q\<bar>\<rceil> - 1))))"

definition to_double :: "rat \<Rightarrow> rat" where
  "to_double q =
     (if q = 0 then 0
      else (let u = 2 powi (exponent q - 52) in of_int (round_half_even (q / u)) * u))"

text \<open>\<^verbatim>\<open>parseInt(str)\<close> on an ASCII string: leading white space is skipped, then an
  optional sign, then \<^verbatim>\<open>0x\<close> or \<^verbatim>\<open>0X\<close> for base 16, then the longest run of digits;
  \<^verbatim>\<open>NaN\<close> when there is no digit, and otherwise the double nearest to the number
  read. A run of more than 308 decimal digits, which JavaScript reads as
  \<^verbatim>\<open>Infinity\<close>, is outside the model.\<close>

definition is_space :: "char \<Rightarrow> bool" where
  "is_space c = (c \<in> set [CHR 0x09, CHR 0x0A, CHR 0x0B, CHR 0x0C, CHR 0x0D, CHR 0x20])"

definition digit_value :: "char \<Rightarrow> nat option" where
  "digit_value c =
     (if CHR ''0'' \<le> c \<and> c \<le> CHR ''9'' then Some (of_char c - 48)
      else if CHR ''a'' \<le> c \<and> c \<le> CHR ''f'' then Some (of_char c - 87)
      else if CHR ''A'' \<le> c \<and> c \<le> CHR ''F'' then Some (of_char c - 55)
      else None)"

definition is_digit :: "nat \<Rightarrow> char \<Rightarrow> bool" where
  "is_digit R c = (case digit_value c of None \<Rightarrow> False | Some d \<Rightarrow> d < R)"

definition parseInt :: "string \<Rightarrow> int option" where
  "parseInt str =
     (let S = dropWhile is_space str;
          sign = (if take 1 S = ''-'' then - 1 else 1);
          S1 = (if take 1 S = ''+'' \<or> take 1 S = ''-'' then drop 1 S else S);
          R = (if take 2 S1 = ''0x'' \<or> take 2 S1 = ''0X'' then 16 else 10);
          S2 = (if R = 16 then drop 2 S1 else S1);
          Z = takeWhile (is_digit R) S2;
          mathInt = foldl (\<lambda>a c. a * R + the (digit_value c)) 0 Z
      in if Z = [] then None else Some \<lfloor>to_double (of_int (sign * int mathInt))\<rfloor>)"

text \<open>\<^verbatim>\<open>a + b\<close> on numbers that may be \<^verbatim>\<open>NaN\<close>. The handlers use the sum as
  the end index of \<^verbatim>\<open>slice\<close> only. A sum of two integer doubles is exact up to
  \<open>2 ^ 53\<close> in absolute value, and a larger one, rounded or not, lies beyond every array
  index on the same side, so the exact sum gives the same slice.\<close>

definition js_add :: "int option \<Rightarrow> int option \<Rightarrow> int option" where
  "js_add a b = (case (a, b) of (Some x, Some y) \<Rightarrow> Some (x + y) | _ \<Rightarrow> None)"

text \<open>\<^verbatim>\<open>Array.prototype.slice(start, end)\<close>: \<^verbatim>\<open>NaN\<close> counts as 0, a negative index
  counts from the end, and both are clamped to the array.\<close>

definition rel_index :: "nat \<Rightarrow> int option \<Rightarrow> nat" where
  "rel_index len i =
     (case i of None \<Rightarrow> 0
      | Some k \<Rightarrow> if k < 0 then nat (max (int len + k) 0) else nat (min k (int len)))"

definition slice :: "'a list \<Rightarrow> int option \<Rightarrow> int option \<Rightarrow> 'a list" where
  "slice xs start end' =
     (let k = rel_index (length xs) start; final = rel_index (length xs) end'
      in take (final - k) (drop k xs))"

text \<open>\<^verbatim>\<open>Array.prototype.sort(compareFn)\<close> is a stable sort; \<open>cmp a b \<le> 0\<close> keeps \<open>a\<close>
  before \<open>b\<close>. Insertion from the right is one such sort.\<close>

fun insert_by :: "('a \<Rightarrow> 'a \<Rightarrow> rat) \<Rightarrow> 'a \<Rightarrow> 'a list \<Rightarrow> 'a list" where
  "insert_by cmp x [] = [x]"
| "insert_by cmp x (y # ys) = (if cmp x y \<le> 0 then x # y # ys else y # insert_by cmp x ys)"

definition js_sort :: "('a \<Rightarrow> 'a \<Rightarrow> rat) \<Rightarrow> 'a list \<Rightarrow> 'a list" where
  "js_sort cmp xs = foldr (insert_by cmp) xs []"

text \<open>The comparator \<^verbatim>\<open>(a, b) => b.rating - a.rating\<close>.\<close>

definition by_rating_desc :: "movie \<Rightarrow> movie \<Rightarrow> rat" where
  "by_rating_desc a b = rating b - rating a"

text \<open>The comparison \<^verbatim>\<open>sort()\<close> uses when it gets no comparator: strings by
  character code.\<close>

definition default_compare :: "string \<Rightarrow> string \<Rightarrow> rat" where
  "default_compare a b = (if a < b then - 1 else if b < a then 1 else 0)"

text \<open>\<^verbatim>\<open>[...new Set(xs)]\<close>: the first occurrence of each element, in order.\<close>

fun dedupe :: "'a list \<Rightarrow> 'a list" where
  "dedupe [] = []"
| "dedupe (x # xs) = x # dedupe (filter (\<lambda>y. y \<noteq> x) xs)"

text \<open>\<^verbatim>\<open>Array.prototype.join(sep)\<close> on strings.\<close>

fun join :: "string \<Rightarrow> string list \<Rightarrow> string" where
  "join sep [] = []"
| "join sep [a] = a"
| "join sep (a # b # r) = a @ sep @ join sep (b # r)"

text \<open>\<^verbatim>\<open>Array.prototype.find\<close> is \<^const>\<open>List.find\<close>.\<close>

subsection \<open>The database as the handlers see it\<close>

text \<open>A statement is the SQL text with its parameters. A numeric parameter is what
  \<^verbatim>\<open>parseInt\<close> gave, so it may be \<^verbatim>\<open>NaN\<close>.\<close>

datatype sqlval = SqlStr string | SqlNum "int option" | SqlDec rat | SqlNull

type_synonym query = "string \<times> sqlval list"

text \<open>The process state: the array \<^verbatim>\<open>movies\<close>, whether \<^verbatim>\<open>connection\<close> holds a
  handle, and the statements handed to \<^verbatim>\<open>connection.execute\<close> so far (a history
  variable: the program does not read it).\<close>

record state =
  movies :: "movie list"
  connection :: bool
  sent :: "query list"

text \<open>What the outside answers during one request: whether \<^verbatim>\<open>mysql.createConnection\<close>
  succeeds, and what \<^verbatim>\<open>connection.execute\<close> returns for a statement, \<open>None\<close> when
  it throws. A \<^verbatim>\<open>SELECT *\<close> answers rows, the \<^verbatim>\<open>SELECT DISTINCT genre\<close> answers the
  genre column, and the \<^verbatim>\<open>INSERT\<close> answers the header with its \<^verbatim>\<open>insertId\<close>. Rows
  carry the fields of \<^typ>\<open>movie\<close>; the two timestamps of the table are left out, no
  handler reads them.\<close>

record env =
  connects :: bool
  select :: "query \<Rightarrow> movie list option"
  select_genre :: "query \<Rightarrow> string list option"
  insert_row :: "query \<Rightarrow> int option"

text \<open>\<^verbatim>\<open>executeQuery\<close>, lines 176 to 190: connect if there is no handle yet, run the
  statement if there is one now, and answer \<^verbatim>\<open>null\<close> (\<open>None\<close>) when there is no
  handle or the driver throws.\<close>

definition executeQuery ::
  "(query \<Rightarrow> 'r option) \<Rightarrow> env \<Rightarrow> query \<Rightarrow> state \<Rightarrow> 'r option \<times> state" where
  "executeQuery execute e q s =
     (let s1 = (if connection s then s else s\<lparr>connection := connects e\<rparr>)
      in if connection s1 then (execute q, s1\<lparr>sent := sent s1 @ [q]\<rparr>) else (None, s1))"

text \<open>The state the process starts with, and a database that cannot be reached.\<close>

definition init_state :: "string \<Rightarrow> state" where
  "init_state S3_BUCKET = \<lparr>movies = movies_init S3_BUCKET, connection = False, sent = []\<rparr>"

definition unreachable :: env where
  "unreachable =
     \<lparr>connects = False, select = (\<lambda>q. None), select_genre = (\<lambda>q. None),
      insert_row = (\<lambda>q. None)\<rparr>"

subsection \<open>Responses\<close>

text \<open>An error response is its status and the text of its \<^verbatim>\<open>error\<close> field.\<close>

datatype error = Error nat string

text \<open>The body of \<^verbatim>\<open>GET /api/movies\<close>. \<^verbatim>\<open>res.json\<close> writes \<^verbatim>\<open>NaN\<close> and the
  infinities as \<^verbatim>\<open>null\<close>, which is \<open>None\<close> in \<open>page\<close> and \<open>limit\<close>.\<close>

record list_response =
  r_movies :: "movie list"
  total :: nat
  page :: "int option"
  limit :: "int option"

record rec_response =
  recommendations :: "movie list"
  basedOn :: string
  r_genre :: string

record created =
  c_status :: nat
  c_message :: string
  c_id :: int

subsection \<open>Request parameters\<close>

text \<open>A numeric query parameter is absent, the empty string, or a non-empty string, which
  enters the handlers as the number \<^verbatim>\<open>parseInt\<close> reads from it (\<open>None\<close> for
  \<^verbatim>\<open>NaN\<close>).\<close>

datatype param = Undefined | Empty | Text "int option"

definition param_of :: "string option \<Rightarrow> param" where
  "param_of v =
     (case v of None \<Rightarrow> Undefined | Some t \<Rightarrow> if t = [] then Empty else Text (parseInt t))"

text \<open>\<^verbatim>\<open>parseInt(p)\<close> after the destructuring default \<^verbatim>\<open>p = d\<close>, which applies to
  \<^verbatim>\<open>undefined\<close> only.\<close>

definition parse_default :: "int \<Rightarrow> param \<Rightarrow> int option" where
  "parse_default d p = (case p of Undefined \<Rightarrow> Some d | Empty \<Rightarrow> None | Text n \<Rightarrow> n)"

text \<open>\<^verbatim>\<open>parseInt(p || d)\<close>: the default also replaces the empty string.\<close>

definition parse_or :: "int \<Rightarrow> param \<Rightarrow> int option" where
  "parse_or d p = (case p of Undefined \<Rightarrow> Some d | Empty \<Rightarrow> Some d | Text n \<Rightarrow> n)"

text \<open>\<^verbatim>\<open>Math.floor(a / b) + 1\<close> as \<^verbatim>\<open>res.json\<close> writes it: \<^verbatim>\<open>null\<close> when an
  operand is \<^verbatim>\<open>NaN\<close> or the divisor is 0, and otherwise the quotient rounded to a
  double, its floor, and that plus 1 rounded to a double.\<close>

definition page_of :: "int option \<Rightarrow> int option \<Rightarrow> int option" where
  "page_of a b =
     (case (a, b) of
        (Some x, Some y) \<Rightarrow>
          if y = 0 then None
          else Some \<lfloor>to_double (of_int \<lfloor>to_double (of_int x / of_int y)\<rfloor> + 1)\<rfloor>
      | _ \<Rightarrow> None)"

subsection \<open>The handlers\<close>

text \<open>The test \<^verbatim>\<open>rows && rows.length > 0\<close> on an answer of \<^verbatim>\<open>executeQuery\<close>.\<close>

definition has_rows :: "'a list option \<Rightarrow> bool" where
  "has_rows rows = (case rows of None \<Rightarrow> False | Some xs \<Rightarrow> xs \<noteq> [])"

text \<open>The statements, as the handlers write them.\<close>

definition all_query :: query where
  "all_query = (''SELECT * FROM movies ORDER BY rating DESC'', [])"

definition by_id_query :: "int option \<Rightarrow> query" where
  "by_id_query i = (''SELECT * FROM movies WHERE id = ?'', [SqlNum i])"

definition trending_query :: "int option \<Rightarrow> query" where
  "trending_query n = (''SELECT * FROM movies ORDER BY rating DESC LIMIT ?'', [SqlNum n])"

definition recs_query :: "string \<Rightarrow> int option \<Rightarrow> int option \<Rightarrow> query" where
  "recs_query g i n =
     (''SELECT * FROM movies WHERE genre = ? AND id != ? ORDER BY rating DESC LIMIT ?'',
      [SqlStr g, SqlNum i, SqlNum n])"

definition genres_query :: query where
  "genres_query = (''SELECT DISTINCT genre FROM movies ORDER BY genre'', [])"

text \<open>\<^verbatim>\<open>GET /api/movies\<close>, lines 218 to 283. The two filters of the in-memory branch:\<close>

definition genre_filter :: "string option \<Rightarrow> movie list \<Rightarrow> movie list" where
  "genre_filter g movieList =
     (if truthy g \<and> g \<noteq> Some ''all'' then filter (\<lambda>m. Some (genre m) = g) movieList
      else movieList)"

definition search_filter :: "string option \<Rightarrow> movie list \<Rightarrow> movie list" where
  "search_filter search movieList =
     (if truthy search then
        (let searchTerm = toLowerCase (the search)
         in filter (\<lambda>m. includes' (toLowerCase (title m)) searchTerm \<or>
                         includes' (toLowerCase (description m)) searchTerm) movieList)
      else movieList)"

text \<open>The statement the database branch builds.\<close>

definition list_query ::
  "string option \<Rightarrow> string option \<Rightarrow> int option \<Rightarrow> int option \<Rightarrow> query" where
  "list_query g search n_limit n_offset =
     (let c1 = (if truthy g \<and> g \<noteq> Some ''all'' then [''genre = ?''] else []);
          p1 = (if truthy g \<and> g \<noteq> Some ''all'' then [SqlStr (the g)] else []);
          c2 = (if truthy search then [''(title LIKE ? OR description LIKE ?)''] else []);
          p2 = (if truthy search
                then [SqlStr (''%'' @ the search @ ''%''), SqlStr (''%'' @ the search @ ''%'')]
                else []);
          whereConditions = c1 @ c2;
          q0 = ''SELECT * FROM movies'';
          q1 = (if whereConditions \<noteq> [] then q0 @ '' WHERE '' @ join '' AND '' whereConditions
                else q0)
      in (q1 @ '' ORDER BY rating DESC LIMIT ? OFFSET ?'',
          p1 @ p2 @ [SqlNum n_limit, SqlNum n_offset]))"

definition list_movies ::
  "env \<Rightarrow> string option \<Rightarrow> string option \<Rightarrow> param \<Rightarrow> param \<Rightarrow> state \<Rightarrow> list_response \<times> state" where
  "list_movies e g search limit_p offset_p s =
     (let n_limit = parse_default 20 limit_p;
          n_offset = parse_default 0 offset_p;
          (dbMovies, s1) = executeQuery (select e) e all_query s;
          (movieList, s2) =
            (if has_rows dbMovies then
               (let (filteredMovies, s') =
                      executeQuery (select e) e (list_query g search n_limit n_offset) s1
                in (case filteredMovies of Some f \<Rightarrow> (f, s') | None \<Rightarrow> (the dbMovies, s')))
             else
               (let l1 = genre_filter g (movies s1);
                    l2 = search_filter search l1;
                    start = n_offset;
                    end' = js_add start n_limit
                in (slice l2 start end', s1)))
      in (\<lparr>r_movies = movieList, total = length movieList, page = page_of n_offset n_limit,
           limit = n_limit\<rparr>, s2))"

text \<open>\<^verbatim>\<open>GET /api/movies/:id\<close>, lines 286 to 306. The path parameter is never absent;
  \<open>i\<close> is \<^verbatim>\<open>parseInt(req.params.id)\<close>. \<^verbatim>\<open>m.id === id\<close> is false for every \<open>m\<close>
  when \<open>i\<close> is \<^verbatim>\<open>NaN\<close>.\<close>

definition not_found :: error where
  "not_found = Error 404 ''Movie not found''"

definition get_movie :: "env \<Rightarrow> int option \<Rightarrow> state \<Rightarrow> (error + movie) \<times> state" where
  "get_movie e i s =
     (let (dbMovie, s1) = executeQuery (select e) e (by_id_query i) s
      in if has_rows dbMovie then (Inr (hd (the dbMovie)), s1)
         else
           (case find (\<lambda>m. Some (id' m) = i) (movies s1) of
              None \<Rightarrow> (Inl not_found, s1)
            | Some m \<Rightarrow> (Inr m, s1)))"

text \<open>\<^verbatim>\<open>POST /api/movies\<close>, lines 309 to 339. A field of the body is absent or has a
  value; \<^verbatim>\<open>x || null\<close> sends \<^verbatim>\<open>null\<close> for an absent field, an empty string and
  the number 0. The statement's text is written here on one line.\<close>

record body =
  b_title :: "string option"
  b_year :: "int option"
  b_genre :: "string option"
  b_rating :: "rat option"
  b_duration :: "string option"
  b_description :: "string option"
  b_poster_url :: "string option"
  b_trailer_url :: "string option"

definition str_or_null :: "string option \<Rightarrow> sqlval" where
  "str_or_null v = (if truthy v then SqlStr (the v) else SqlNull)"

definition int_or_null :: "int option \<Rightarrow> sqlval" where
  "int_or_null v =
     (case v of None \<Rightarrow> SqlNull | Some n \<Rightarrow> if n = 0 then SqlNull else SqlNum (Some n))"

definition dec_or_null :: "rat option \<Rightarrow> sqlval" where
  "dec_or_null v = (case v of None \<Rightarrow> SqlNull | Some r \<Rightarrow> if r = 0 then SqlNull else SqlDec r)"

definition insertQuery :: "body \<Rightarrow> query" where
  "insertQuery b =
     (''INSERT INTO movies (title, year, genre, rating, duration, description, poster_url, trailer_url) VALUES (?, ?, ?, ?, ?, ?, ?, ?)'',
      [SqlStr (the (b_title b)), int_or_null (b_year b), SqlStr (the (b_genre b)),
       dec_or_null (b_rating b), str_or_null (b_duration b), str_or_null (b_description b),
       str_or_null (b_poster_url b), str_or_null (b_trailer_url b)])"

definition create_movie :: "env \<Rightarrow> body \<Rightarrow> state \<Rightarrow> (error + created) \<times> state" where
  "create_movie e b s =
     (if \<not> truthy (b_title b) \<or> \<not> truthy (b_genre b)
      then (Inl (Error 400 ''Title and genre are required''), s)
      else
        (let (result, s1) = executeQuery (insert_row e) e (insertQuery b) s
         in (case result of
               Some insertId \<Rightarrow>
                 (Inr \<lparr>c_status = 201, c_message = ''Movie added successfully'', c_id = insertId\<rparr>,
                  s1)
             | None \<Rightarrow> (Inl (Error 500 ''Failed to add movie to database''), s1))))"

text \<open>\<^verbatim>\<open>GET /api/movies/trending\<close>, lines 342 to 364. \<^verbatim>\<open>movies.sort(...)\<close> sorts the
  array \<^verbatim>\<open>movies\<close> itself and returns it, so the sorted order is written to the state.\<close>

definition trending :: "env \<Rightarrow> param \<Rightarrow> state \<Rightarrow> movie list \<times> state" where
  "trending e limit_p s =
     (let n_limit = parse_or 6 limit_p;
          (dbMovies, s1) = executeQuery (select e) e (trending_query n_limit) s
      in if has_rows dbMovies then (the dbMovies, s1)
         else
           (let sorted_movies = js_sort by_rating_desc (movies s1);
                s2 = s1\<lparr>movies := sorted_movies\<rparr>;
                trendingMovies = slice sorted_movies (Some 0) n_limit
            in (trendingMovies, s2)))"

text \<open>\<^verbatim>\<open>GET /api/recommendations/:movieId\<close>, lines 367 to 414. Here \<^verbatim>\<open>filter\<close> makes
  a new array, so the sort leaves \<^verbatim>\<open>movies\<close> alone.\<close>

definition recommendations_for ::
  "env \<Rightarrow> int option \<Rightarrow> param \<Rightarrow> state \<Rightarrow> (error + rec_response) \<times> state" where
  "recommendations_for e movieId limit_p s =
     (let n_limit = parse_or 4 limit_p;
          (baseMovie, s1) = executeQuery (select e) e (by_id_query movieId) s
      in if \<not> has_rows baseMovie then (Inl not_found, s1)
         else
           (let movie = hd (the baseMovie);
                (recs, s2) =
                  executeQuery (select e) e (recs_query (genre movie) movieId n_limit) s1
            in (case recs of
                  Some rows \<Rightarrow>
                    (Inr \<lparr>recommendations = rows, basedOn = title movie, r_genre = genre movie\<rparr>,
                     s2)
                | None \<Rightarrow>
                    (case find (\<lambda>m. Some (id' m) = movieId) (movies s2) of
                       None \<Rightarrow> (Inl not_found, s2)
                     | Some inMemoryMovie \<Rightarrow>
                         (let inMemoryRecs =
                                slice
                                  (js_sort by_rating_desc
                                     (filter (\<lambda>m. genre m = genre inMemoryMovie
                                                   \<and> Some (id' m) \<noteq> movieId) (movies s2)))
                                  (Some 0) n_limit
                          in (Inr \<lparr>recommendations = inMemoryRecs,
                                   basedOn = title inMemoryMovie,
                                   r_genre = genre inMemoryMovie\<rparr>, s2))))))"

text \<open>\<^verbatim>\<open>GET /api/genres\<close>, lines 417 to 431. Any answer of the database is used, an
  empty one too.\<close>

definition genres :: "env \<Rightarrow> state \<Rightarrow> string list \<times> state" where
  "genres e s =
     (let (rows, s1) = executeQuery (select_genre e) e genres_query s
      in (case rows of
            Some gs \<Rightarrow> (gs, s1)
          | None \<Rightarrow> (js_sort default_compare (dedupe (map genre (movies s1))), s1)))"

subsection \<open>The routes\<close>

text \<open>A request is its verb (\<^verbatim>\<open>GET\<close>, \<^verbatim>\<open>POST\<close> and so on), the segments of its path (the text between the slashes, plain
  ASCII without percent escapes), the query parameters the handlers read, and the parsed
  JSON body. Express tries the routes in the order in which the file registers them and
  runs the first whose verb and path match; no handler of the file passes the request
  on. A \<^verbatim>\<open>HEAD\<close> request runs the \<^verbatim>\<open>GET\<close> route. Paths match without regard to letter
  case and with or without one slash at the end, and a parameter such as \<^verbatim>\<open>:id\<close>
  matches one non-empty segment.\<close>

datatype verb = GET | HEAD | POST | DELETE | OtherVerb

record request =
  rq_verb :: verb
  rq_path :: "string list"
  rq_genre :: "string option"
  rq_search :: "string option"
  rq_limit :: "string option"
  rq_offset :: "string option"
  rq_body :: body

datatype route =
    HealthRoute | UploadRoute | ListRoute | ByIdRoute string | CreateRoute | TrendingRoute
  | RecommendationsRoute string | GenresRoute | S3Route string

definition is_get :: "verb \<Rightarrow> bool" where
  "is_get m = (m = GET \<or> m = HEAD)"

definition strip_slash :: "string list \<Rightarrow> string list" where
  "strip_slash p = (if p \<noteq> [] \<and> last p = [] then butlast p else p)"

definition literal :: "string list \<Rightarrow> string list \<Rightarrow> bool" where
  "literal pattern p = (map toLowerCase (strip_slash p) = pattern)"

definition with_param :: "string list \<Rightarrow> string list \<Rightarrow> string option" where
  "with_param pattern p =
     (let q = strip_slash p
      in if q \<noteq> [] \<and> map toLowerCase (butlast q) = pattern \<and> last q \<noteq> []
         then Some (last q) else None)"

text \<open>The routes in the order of their registration, lines 195 to 434.\<close>

definition dispatch :: "verb \<Rightarrow> string list \<Rightarrow> route option" where
  "dispatch m p =
     (if is_get m \<and> literal [''health''] p then Some HealthRoute
      else if m = POST \<and> literal [''api'', ''upload''] p then Some UploadRoute
      else if is_get m \<and> literal [''api'', ''movies''] p then Some ListRoute
      else if is_get m \<and> with_param [''api'', ''movies''] p \<noteq> None
        then Some (ByIdRoute (the (with_param [''api'', ''movies''] p)))
      else if m = POST \<and> literal [''api'', ''movies''] p then Some CreateRoute
      else if is_get m \<and> literal [''api'', ''movies'', ''trending''] p then Some TrendingRoute
      else if is_get m \<and> with_param [''api'', ''recommendations''] p \<noteq> None
        then Some (RecommendationsRoute (the (with_param [''api'', ''recommendations''] p)))
      else if is_get m \<and> literal [''api'', ''genres''] p then Some GenresRoute
      else if m = DELETE \<and> with_param [''api'', ''s3''] p \<noteq> None
        then Some (S3Route (the (with_param [''api'', ''s3''] p)))
      else None)"

text \<open>The answer to a request. The health check tells whether there is a connection
  handle. The upload and the deletion of a media object talk to the object store only and
  their answers are not modelled. \<open>Unhandled\<close> is a request that no route of the file
  takes.\<close>

datatype response =
    HealthR bool | UploadR | S3R
  | ListR list_response | MovieR "error + movie" | CreateR "error + created"
  | TrendingR "movie list" | RecommendationsR "error + rec_response" | GenresR "string list"
  | Unhandled

definition serve :: "env \<Rightarrow> request \<Rightarrow> state \<Rightarrow> response \<times> state" where
  "serve e r s =
     (case dispatch (rq_verb r) (rq_path r) of
        None \<Rightarrow> (Unhandled, s)
      | Some HealthRoute \<Rightarrow> (HealthR (connection s), s)
      | Some UploadRoute \<Rightarrow> (UploadR, s)
      | Some ListRoute \<Rightarrow>
          (let (a, s') = list_movies e (rq_genre r) (rq_search r) (param_of (rq_limit r))
                           (param_of (rq_offset r)) s
           in (ListR a, s'))
      | Some (ByIdRoute i) \<Rightarrow> (let (a, s') = get_movie e (parseInt i) s in (MovieR a, s'))
      | Some CreateRoute \<Rightarrow> (let (a, s') = create_movie e (rq_body r) s in (CreateR a, s'))
      | Some TrendingRoute \<Rightarrow>
          (let (a, s') = trending e (param_of (rq_limit r)) s in (TrendingR a, s'))
      | Some (RecommendationsRoute i) \<Rightarrow>
          (let (a, s') = recommendations_for e (parseInt i) (param_of (rq_limit r)) s
           in (RecommendationsR a, s'))
      | Some GenresRoute \<Rightarrow> (let (a, s') = genres e s in (GenresR a, s'))
      | Some (S3Route k) \<Rightarrow> (S3R, s))"


text \<open>The request \<^verbatim>\<open>GET /api/movies/trending\<close> with the given \<^verbatim>\<open>limit\<close>.\<close>

definition trending_request :: "string option \<Rightarrow> request" where
  "trending_request l =
     \<lparr>rq_verb = GET, rq_path = [''api'', ''movies'', ''trending''], rq_genre = None,
      rq_search = None, rq_limit = l, rq_offset = None,
      rq_body = \<lparr>b_title = None, b_year = None, b_genre = None, b_rating = None,
                  b_duration = None, b_description = None, b_poster_url = None,
                  b_trailer_url = None\<rparr>\<rparr>"


text \<open>A database that is reached and holds no row: every \<^verbatim>\<open>SELECT\<close> answers the empty
  array.\<close>

definition empty_store :: env where
  "empty_store =
     \<lparr>connects = True, select = (\<lambda>q. Some []), select_genre = (\<lambda>q. Some []),
      insert_row = (\<lambda>q. Some 1)\<rparr>"

text \<open>A database that answers the lookup by id with the sample row of that id and throws on
  every other statement.\<close>

definition lookup_only :: "string \<Rightarrow> env" where
  "lookup_only S3_BUCKET =
     \<lparr>connects = True,
      select = (\<lambda>q. if fst q = ''SELECT * FROM movies WHERE id = ?''
                     then Some (filter (\<lambda>m. snd q = [SqlNum (Some (id' m))]) (movies_init S3_BUCKET))
                     else None),
      select_genre = (\<lambda>q. None), insert_row = (\<lambda>q. None)\<rparr>"



text \<open>A request body that carries a title and a genre and nothing else.\<close>

definition title_genre_only :: "string option \<Rightarrow> string option \<Rightarrow> body" where
  "title_genre_only t g =
     \<lparr>b_title = t, b_year = None, b_genre = g, b_rating = None, b_duration = None,
      b_description = None, b_poster_url = None, b_trailer_url = None\<rparr>"

subsection \<open>Properties named in the specification\<close>

text \<open>A list is in descending order of rating.\<close>

definition descending :: "movie list \<Rightarrow> bool" where
  "descending ms = sorted_wrt (\<lambda>a b. rating b \<le> rating a) ms"

text \<open>A rating has one decimal place: ten times it is a whole number.\<close>

definition one_decimal :: "rat \<Rightarrow> bool" where
  "one_decimal r = (of_int \<lfloor>r * 10\<rfloor> = r * 10)"

text \<open>Following the specification's words for the search filter: \<open>s\<close> contains \<open>t\<close>
  case-insensitively when \<open>t\<close> matches \<open>s\<close> at some position, letter case ignored.\<close>

definition same_ignoring_case :: "string \<Rightarrow> string \<Rightarrow> bool" where
  "same_ignoring_case u t = (length u = length t \<and> list_all2 (\<lambda>a b. lower_char a = lower_char b) u t)"

definition contains_ignoring_case :: "string \<Rightarrow> string \<Rightarrow> bool" where
  "contains_ignoring_case s t =
     list_ex (\<lambda>i. same_ignoring_case (take (length t) (drop i s)) t) [0 ..< Suc (length s)]"

text \<open>Following the specification's words for the filter policy of List: with a genre that
  is present and not \<^verbatim>\<open>all\<close> the genre matches exactly, and with a search term that is
  present the title or the description contains it case-insensitively. Present means a
  non-empty string, as the handler's truthiness test has it.\<close>

definition keeps :: "string option \<Rightarrow> string option \<Rightarrow> movie \<Rightarrow> bool" where
  "keeps g search m =
     ((truthy g \<and> g \<noteq> Some ''all'' \<longrightarrow> Some (genre m) = g) \<and>
      (truthy search \<longrightarrow>
         contains_ignoring_case (title m) (the search) \<or>
         contains_ignoring_case (description m) (the search)))"

section \<open>Facts about the library functions\<close>

lemma lower_char_Char:
  "lower_char (Char b0 b1 b2 b3 b4 b5 b6 b7) =
     (if CHR ''A'' \<le> Char b0 b1 b2 b3 b4 b5 b6 b7 \<and> Char b0 b1 b2 b3 b4 b5 b6 b7 \<le> CHR ''Z''
      then Char b0 b1 b2 b3 b4 True b6 b7 else Char b0 b1 b2 b3 b4 b5 b6 b7)"
  by (induct b0; induct b1; induct b2; induct b3; induct b4; induct b5; induct b6; induct b7;
      code_simp)


lemma round_half_even_int [simp]: "round_half_even (of_int k) = k"
  by (simp add: round_half_even_def)

lemma exponent_lower: assumes "q \<noteq> 0" shows "2 powi (exponent q) \<le> \<bar>q\<bar>"
proof (cases "1 \<le> \<bar>q\<bar>")
  case True
  define m where "m = nat \<lfloor>\<bar>q\<bar>\<rfloor>"
  have m: "0 < m" using True by (simp add: m_def)
  have "(2::nat) ^ (floorlog 2 m - 1) \<le> m" using floorlog_bounds [OF m] by simp
  then have "(of_nat ((2::nat) ^ (floorlog 2 m - 1)) :: rat) \<le> of_nat m"
    by (simp only: of_nat_le_iff)
  then have a: "(2::rat) ^ (floorlog 2 m - 1) \<le> of_nat m" by simp
  have b: "(of_nat m :: rat) \<le> \<bar>q\<bar>" using True by (simp add: m_def)
  have "0 < floorlog 2 m" using m by (simp add: floorlog_def)
  then have "exponent q = int (floorlog 2 m - 1)"
    using True by (simp add: exponent_def m_def)
  then have "2 powi exponent q = (2::rat) ^ (floorlog 2 m - 1)"
    by (simp only: power_int_of_nat)
  with a b show ?thesis by linarith
next
  case False
  define r where "r = 1 / \<bar>q\<bar>"
  define m where "m = nat (\<lceil>r\<rceil> - 1)"
  have q: "0 < \<bar>q\<bar>" using assms by simp
  have r: "1 < r" using False q by (simp add: r_def)
  then have c: "2 \<le> \<lceil>r\<rceil>" by linarith
  then have m: "0 < m" by (simp add: m_def)
  have "m < 2 ^ floorlog 2 m" using floorlog_bounds [OF m] by simp
  then have "int m < int (2 ^ floorlog 2 m)" by (simp only: of_nat_less_iff)
  then have "\<lceil>r\<rceil> \<le> 2 ^ floorlog 2 m" using c by (simp add: m_def)
  then have "r \<le> of_int (2 ^ floorlog 2 m)" by (simp only: ceiling_le_iff)
  then have "r \<le> 2 ^ floorlog 2 m" by simp
  then have "1 \<le> 2 ^ floorlog 2 m * \<bar>q\<bar>"
    using q by (simp add: r_def field_simps)
  then have d: "inverse (2 ^ floorlog 2 m) \<le> \<bar>q\<bar>"
    by (simp add: field_simps)
  have "exponent q = - int (floorlog 2 m)"
    using False by (simp add: exponent_def m_def r_def)
  then have "2 powi exponent q = inverse ((2::rat) ^ floorlog 2 m)"
    by (simp only: power_int_minus power_int_of_nat)
  with d show ?thesis by simp
qed


lemma exponent_small:
  assumes "q \<noteq> 0" "\<bar>q\<bar> < 2 ^ 53"
  obtains n where "2 powi (exponent q - 52) = inverse ((2::rat) ^ n)" "2 ^ 52 \<le> \<bar>q\<bar> * 2 ^ n"
proof -
  have l: "2 powi (exponent q) \<le> \<bar>q\<bar>" using assms(1) by (rule exponent_lower)
  have "exponent q < 53"
  proof (rule ccontr)
    assume "\<not> exponent q < 53"
    then have "(2::rat) powi 53 \<le> 2 powi exponent q"
      by (intro power_int_increasing) simp_all
    then have "(2::rat) ^ 53 \<le> 2 powi exponent q"
      by (metis power_int_numeral)
    with l assms(2) show False by linarith
  qed
  define n where "n = nat (52 - exponent q)"
  have e: "exponent q - 52 = - int n" using \<open>exponent q < 53\<close> by (simp add: n_def)
  have u: "2 powi (exponent q - 52) = inverse ((2::rat) ^ n)"
    unfolding e by (simp only: power_int_minus power_int_of_nat)
  have "(2::rat) powi exponent q = 2 powi (exponent q - 52) * 2 powi 52"
    by (subst power_int_add [symmetric]) simp_all
  also have "\<dots> = inverse (2 ^ n) * 2 ^ 52"
    unfolding u by (metis power_int_numeral)
  finally have "inverse (2 ^ n) * 2 ^ 52 \<le> \<bar>q\<bar>" using l by simp
  then have "2 ^ 52 \<le> \<bar>q\<bar> * 2 ^ n"
    by (simp add: field_simps)
  with u show thesis by (rule that)
qed


lemma to_double_int:
  assumes "\<bar>k\<bar> \<le> 2 ^ 53"
  shows "to_double (of_int k) = of_int k"
proof (cases "\<bar>k\<bar> < 2 ^ 53")
  case True
  show ?thesis
  proof (cases "k = 0")
    case True
    then show ?thesis by (simp add: to_double_def)
  next
    case False
    have "\<bar>rat_of_int k\<bar> < 2 ^ 53"
      using True by (metis of_int_abs of_int_less_iff of_int_numeral of_int_power)
    with False obtain n where u: "2 powi (exponent (of_int k) - 52) = inverse ((2::rat) ^ n)"
      using exponent_small [of "of_int k"] by auto
    have "rat_of_int k / inverse (2 ^ n) = of_int (k * 2 ^ n)"
      by (simp add: divide_inverse)
    then have "round_half_even (rat_of_int k / inverse (2 ^ n)) = k * 2 ^ n"
      by (simp only: round_half_even_int)
    then show ?thesis using False by (simp add: to_double_def Let_def u)
  qed
next
  case False
  with assms have k: "k = 2 ^ 53 \<or> k = - (2 ^ 53)" by linarith
  have q: "rat_of_int k \<noteq> 0" "\<bar>rat_of_int k\<bar> = 2 ^ 53" using k by auto
  have l: "2 powi (exponent (of_int k)) \<le> (2::rat) ^ 53"
    using exponent_lower [OF q(1)] q(2) by simp
  have e: "exponent (of_int k) = 53"
  proof -
    have "exponent (of_int k) \<le> 53"
    proof (rule ccontr)
      assume "\<not> exponent (of_int k) \<le> 53"
      then have "(2::rat) powi 54 \<le> 2 powi exponent (of_int k)"
        by (intro power_int_increasing) simp_all
      then have "(2::rat) ^ 54 \<le> 2 powi exponent (of_int k)"
        by (metis power_int_numeral)
      with l show False by simp
    qed
    moreover have "53 \<le> exponent (of_int k)"
    proof -
      have "nat \<lfloor>\<bar>rat_of_int k\<bar>\<rfloor> = 2 ^ 53" using k by auto
      then have "2 ^ (54 - 1) \<le> nat \<lfloor>\<bar>rat_of_int k\<bar>\<rfloor>" by simp
      then have "54 \<le> floorlog 2 (nat \<lfloor>\<bar>rat_of_int k\<bar>\<rfloor>)"
        by (rule floorlog_geI) simp
      then show ?thesis using q(2) by (simp add: exponent_def)
    qed
    ultimately show ?thesis by simp
  qed
  have "rat_of_int k / 2 powi (53 - 52) = of_int (k div 2)" using k by auto
  then have "round_half_even (rat_of_int k / 2 powi (53 - 52)) = k div 2"
    by (simp only: round_half_even_int)
  then show ?thesis using q(1) k by (auto simp: to_double_def Let_def e)
qed




lemma insert_by_rating:
  "insert_by by_rating_desc x ys = insort_key (\<lambda>m. - rating m) x ys"
  by (induction ys) (simp_all add: by_rating_desc_def)

lemma js_sort_by_rating: "js_sort by_rating_desc xs = sort_key (\<lambda>m. - rating m) xs"
proof -
  have "insert_by by_rating_desc = insort_key (\<lambda>m. - rating m)"
    by (intro ext) (rule insert_by_rating)
  then show ?thesis by (simp add: js_sort_def sort_key_def)
qed

lemma descending_js_sort: "descending (js_sort by_rating_desc xs)"
proof -
  have "sorted (map (\<lambda>m. - rating m) (sort_key (\<lambda>m. - rating m) xs))"
    by (rule sorted_sort_key)
  then show ?thesis
    by (simp add: descending_def js_sort_by_rating sorted_map)
qed

lemma mset_js_sort: "mset (js_sort by_rating_desc xs) = mset xs"
  by (simp add: js_sort_by_rating)

lemma insert_by_default: "insert_by default_compare x ys = insort x ys"
  by (induction ys) (auto simp: default_compare_def)

lemma js_sort_default: "js_sort default_compare xs = sort xs"
proof -
  have "insert_by default_compare = insort"
    by (intro ext) (rule insert_by_default)
  then show ?thesis by (simp add: js_sort_def sort_key_def)
qed

lemma set_dedupe: "set (dedupe xs) = set xs"
  by (induction xs rule: dedupe.induct) auto

lemma distinct_dedupe: "distinct (dedupe xs)"
  by (induction xs rule: dedupe.induct) (auto simp: set_dedupe)

lemma slice_from_0: "0 \<le> n \<Longrightarrow> slice xs (Some 0) (Some n) = take (nat n) xs"
  by (simp add: slice_def rel_index_def min_def)



lemma slice_NaN_start: "slice xs None b = take (rel_index (length xs) b) xs"
  by (simp add: slice_def rel_index_def)

lemma descending_slice: "descending xs \<Longrightarrow> descending (slice xs a b)"
  by (simp add: descending_def slice_def Let_def)

lemma mset_slice: "mset (slice xs a b) \<subseteq># mset xs"
proof -
  have "mset (take n (drop k xs)) \<subseteq># mset xs" for n k
    by (metis append_take_drop_id mset_append mset_subset_eq_add_left
        mset_subset_eq_add_right subset_mset.order_trans)
  then show ?thesis by (simp add: slice_def Let_def)
qed

lemma executeQuery_fst:
  "fst (executeQuery x e q s) = (if connection s \<or> connects e then x q else None)"
  by (simp add: executeQuery_def Let_def)

lemma executeQuery_movies: "movies (snd (executeQuery x e q s)) = movies s"
  by (simp add: executeQuery_def Let_def)


lemma includes'_position:
  "includes' xs t \<longleftrightarrow> (\<exists>i\<le>length xs. take (length t) (drop i xs) = t)"
proof (induction xs)
  case Nil
  then show ?case by auto
next
  case (Cons c cs)
  have "(\<exists>i\<le>Suc (length cs). take (length t) (drop i (c # cs)) = t) \<longleftrightarrow>
        take (length t) (c # cs) = t \<or> (\<exists>j\<le>length cs. take (length t) (drop j cs) = t)"
    (is "?L \<longleftrightarrow> ?R")
  proof
    assume ?L
    then obtain i where i: "i \<le> Suc (length cs)" "take (length t) (drop i (c # cs)) = t"
      by blast
    show ?R
    proof (cases i)
      case 0
      with i show ?thesis by simp
    next
      case (Suc j)
      with i show ?thesis by auto
    qed
  next
    assume ?R
    then show ?L
    proof
      assume "take (length t) (c # cs) = t"
      then have "take (length t) (drop 0 (c # cs)) = t" by simp
      then show ?L by blast
    next
      assume "\<exists>j\<le>length cs. take (length t) (drop j cs) = t"
      then obtain j where "j \<le> length cs" "take (length t) (drop (Suc j) (c # cs)) = t"
        by auto
      then show ?L by (metis Suc_le_mono)
    qed
  qed
  moreover have "prefix t (c # cs) \<longleftrightarrow> take (length t) (c # cs) = t"
    by (metis prefix_def append_eq_conv_conj append_take_drop_id)
  ultimately show ?case using Cons.IH by simp
qed

lemma same_ignoring_case_lower:
  "same_ignoring_case u t \<longleftrightarrow> toLowerCase u = toLowerCase t"
  by (auto simp: same_ignoring_case_def toLowerCase_def list_all2_conv_all_nth
                 list_eq_iff_nth_eq)

lemma includes'_lower:
  "includes' (toLowerCase s) (toLowerCase t) \<longleftrightarrow> contains_ignoring_case s t"
proof -
  have "includes' (toLowerCase s) (toLowerCase t) \<longleftrightarrow>
        (\<exists>i\<le>length s. take (length t) (drop i (toLowerCase s)) = toLowerCase t)"
    by (simp add: includes'_position toLowerCase_def)
  also have "\<dots> \<longleftrightarrow> (\<exists>i\<le>length s. toLowerCase (take (length t) (drop i s)) = toLowerCase t)"
    by (simp add: toLowerCase_def take_map drop_map)
  also have "\<dots> \<longleftrightarrow> contains_ignoring_case s t"
    by (auto simp del: upt_Suc
             simp add: contains_ignoring_case_def list_ex_iff same_ignoring_case_lower
                       less_Suc_eq_le)
  finally show ?thesis .
qed

lemma filters_are_keeps: "search_filter search (genre_filter g ms) = filter (keeps g search) ms"
  by (auto simp: search_filter_def genre_filter_def keeps_def Let_def includes'_lower
           intro: filter_cong)

section \<open>Facts about the sample data and the fallback branches\<close>

lemma length_movies_init: "length (movies_init b) = 6"
  by (simp add: movies_init_def)

lemma map_id_movies_init: "map id' (movies_init b) = [1, 2, 3, 4, 5, 6]"
  by (simp add: movies_init_def)

lemma map_rating_movies_init: "map rating (movies_init b) = [4.8, 4.5, 4.7, 4.2, 4.6, 4.4]"
  by (simp add: movies_init_def)

lemma map_genre_movies_init:
  "map genre (movies_init b) =
     [''sci-fi'', ''action'', ''drama'', ''comedy'', ''thriller'', ''action'']"
  by (simp add: movies_init_def)

lemma unreachable_answers: "fst (executeQuery x unreachable q (init_state b)) = None"
  by (simp add: executeQuery_fst unreachable_def init_state_def)

lemma movies_init_state: "movies (init_state b) = movies_init b"
  by (simp add: init_state_def)

lemma list_movies_fallback:
  assumes "\<not> has_rows (fst (executeQuery (select e) e all_query s))"
  shows "r_movies (fst (list_movies e g search limit_p offset_p s)) =
           slice (search_filter search (genre_filter g (movies s)))
             (parse_default 0 offset_p)
             (js_add (parse_default 0 offset_p) (parse_default 20 limit_p))"
  using assms by (simp add: list_movies_def split_beta Let_def executeQuery_movies)

lemma list_fallback_all:
  "r_movies (fst (list_movies unreachable None None Undefined Undefined (init_state b)))
     = movies_init b"
proof -
  have "\<not> has_rows (fst (executeQuery (select unreachable) unreachable all_query (init_state b)))"
    by (simp add: unreachable_answers has_rows_def)
  then show ?thesis
    by (simp add: list_movies_fallback movies_init_state genre_filter_def search_filter_def
        truthy_def parse_default_def js_add_def slice_def rel_index_def length_movies_init)
qed

lemma not_descending_ratings: "map rating ms = [4.8, 4.5, 4.7, 4.2, 4.6, 4.4] \<Longrightarrow> \<not> descending ms"
proof
  assume r: "map rating ms = [4.8, 4.5, 4.7, 4.2, 4.6, 4.4]" and d: "descending ms"
  from d have "sorted_wrt (\<lambda>a b. b \<le> a) (map rating ms)"
    by (simp add: descending_def sorted_wrt_map)
  with r show False by simp
qed

lemma get_movie_fallback:
  assumes "\<not> has_rows (fst (executeQuery (select e) e (by_id_query i) s))"
  shows "fst (get_movie e i s) =
           (case find (\<lambda>m. Some (id' m) = i) (movies s) of
              None \<Rightarrow> Inl not_found | Some m \<Rightarrow> Inr m)"
  using assms
  by (simp add: get_movie_def split_beta Let_def executeQuery_movies split: option.splits)

lemma empty_store_answers: "fst (executeQuery (select empty_store) empty_store q s) = Some []"
  by (simp add: executeQuery_fst empty_store_def)

lemma find_first_seed: "find (\<lambda>m. id' m = 1) (movies_init b) = Some (hd (movies_init b))"
  by (simp add: movies_init_def)

lemma title_first_seed: "title (hd (movies_init b)) = ''Quantum Nexus''"
  by (simp add: movies_init_def)

lemma genre_first_seed: "genre (hd (movies_init b)) = ''sci-fi''"
  by (simp add: movies_init_def)

lemma trending_fallback_state:
  assumes "\<not> has_rows (fst (executeQuery (select e) e (trending_query (parse_or 6 limit_p)) s))"
  shows "movies (snd (trending e limit_p s)) = js_sort by_rating_desc (movies s)"
    and "fst (trending e limit_p s) = slice (js_sort by_rating_desc (movies s)) (Some 0) (parse_or 6 limit_p)"
  using assms by (simp_all add: trending_def split_beta Let_def executeQuery_movies)

lemma sorted_seed_ids: "map id' (js_sort by_rating_desc (movies_init b)) = [1, 3, 5, 2, 6, 4]"
  by (simp add: movies_init_def js_sort_def by_rating_desc_def)


lemma sorted_seed_titles:
  "map title (js_sort by_rating_desc (movies_init b)) =
     [''Quantum Nexus'', ''The Last Symphony'', ''Digital Phantom'', ''Shadow Protocol'',
      ''Neon Nights'', ''Cosmic Comedy Club'']"
  by (simp add: movies_init_def js_sort_def by_rating_desc_def)

lemma sorted_seed_ratings:
  "map rating (js_sort by_rating_desc (movies_init b)) = [4.8, 4.7, 4.6, 4.5, 4.4, 4.2]"
  by (simp add: movies_init_def js_sort_def by_rating_desc_def)

lemma genres_fallback_value:
  assumes "fst (executeQuery (select_genre e) e genres_query s) = None"
  shows "fst (genres e s) = sort (dedupe (map genre (movies s)))"
  using assms by (simp add: genres_def split_beta Let_def executeQuery_movies js_sort_default)

lemma sort_dedupe_unique:
  assumes "sorted ys" "distinct ys" "set ys = set xs"
  shows "sort (dedupe xs) = ys"
proof (rule sorted_distinct_set_unique)
  show "sorted (sort (dedupe xs))" by simp
  show "distinct (sort (dedupe xs))" by (simp add: distinct_dedupe)
  show "sorted ys" "distinct ys" by fact+
  show "set (sort (dedupe xs)) = set ys" using assms(3) by (simp add: set_dedupe)
qed

lemma five_genres_sorted:
  "sorted [''action'', ''comedy'', ''drama'', ''sci-fi'', ''thriller'']"
  "distinct [''action'', ''comedy'', ''drama'', ''sci-fi'', ''thriller'']"
  by simp_all

lemma galaxy_filter:
  "map title (search_filter (Some ''galaxy'') (movies_init b)) = [''Cosmic Comedy Club'']"
  by (simp add: search_filter_def truthy_def Let_def toLowerCase_def lower_char_Char
      movies_init_def)

lemma list_galaxy:
  "map title (r_movies (fst (list_movies unreachable None (Some ''galaxy'') Undefined Undefined
                               (init_state b)))) = [''Cosmic Comedy Club'']"
proof -
  have h: "\<not> has_rows (fst (executeQuery (select unreachable) unreachable all_query (init_state b)))"
    by (simp add: unreachable_answers has_rows_def)
  have l: "length (search_filter (Some ''galaxy'') (movies_init b)) = 1"
    using galaxy_filter [of b] by (metis length_map length_Cons list.size(3) One_nat_def)
  have "slice (search_filter (Some ''galaxy'') (movies_init b)) (Some 0) (Some 20)
          = search_filter (Some ''galaxy'') (movies_init b)"
    by (simp add: slice_from_0 l)
  then show ?thesis
    by (simp add: list_movies_fallback [OF h] movies_init_state genre_filter_def truthy_def
        parse_default_def js_add_def galaxy_filter)
qed

lemma seed_fields:
  "list_all (\<lambda>m. title m \<noteq> [] \<and> genre m \<noteq> [] \<and> one_decimal (rating m)) (movies_init b)"
  by (simp add: movies_init_def one_decimal_def)

lemma handlers_keep_movies:
  "movies (snd (list_movies e g search limit_p offset_p s)) = movies s"
  "movies (snd (get_movie e i s)) = movies s"
  "movies (snd (create_movie e bd s)) = movies s"
  "movies (snd (recommendations_for e i limit_p s)) = movies s"
  "movies (snd (genres e s)) = movies s"
  by (simp_all add: list_movies_def get_movie_def create_movie_def recommendations_for_def
      genres_def split_beta Let_def executeQuery_movies split: option.splits)

lemma trending_movies_mset: "mset (movies (snd (trending e limit_p s))) = mset (movies s)"
  by (simp add: trending_def split_beta Let_def executeQuery_movies mset_js_sort)

section \<open>Facts about double precision, the routes and the statements\<close>





lemma parseInt_examples:
  "parseInt ''3'' = Some 3" "parseInt ''  -12px'' = Some (- 12)" "parseInt ''0x1F'' = Some 31"
  "parseInt [] = None" "parseInt ''1e3'' = Some 1" "parseInt ''+20'' = Some 20"
proof -
  have d: "\<lfloor>to_double (rat_of_int k)\<rfloor> = k" if "\<bar>k\<bar> \<le> 2 ^ 53" for k
    using to_double_int [OF that] by simp
  have "\<lfloor>to_double (rat_of_int 3)\<rfloor> = 3" "\<lfloor>to_double (rat_of_int (- 12))\<rfloor> = - 12"
    "\<lfloor>to_double (rat_of_int 31)\<rfloor> = 31" "\<lfloor>to_double (rat_of_int 1)\<rfloor> = 1"
    "\<lfloor>to_double (rat_of_int 20)\<rfloor> = 20"
    by (rule d, simp)+
  then show "parseInt ''3'' = Some 3" "parseInt ''  -12px'' = Some (- 12)"
    "parseInt ''0x1F'' = Some 31" "parseInt [] = None" "parseInt ''1e3'' = Some 1"
    "parseInt ''+20'' = Some 20"
    by (simp_all add: parseInt_def is_space_def is_digit_def digit_value_def Let_def)
qed

lemma parseInt_trending: "parseInt ''trending'' = None"
  by (simp add: parseInt_def is_space_def is_digit_def digit_value_def Let_def)

lemma dispatch_trending_path:
  "dispatch GET [''api'', ''movies'', ''trending''] = Some (ByIdRoute ''trending'')"
  by (simp add: dispatch_def is_get_def literal_def with_param_def strip_slash_def
      toLowerCase_def lower_char_Char Let_def)





lemma serve_trending_request:
  assumes "\<not> has_rows (fst (executeQuery (select e) e (by_id_query None) s))"
  shows "fst (serve e (trending_request l) s) = MovieR (Inl not_found)"
proof -
  have "find (\<lambda>m. Some (id' m) = None) (movies s) = None"
    by (induction "movies s") (simp_all add: find_None_iff)
  then show ?thesis
    using assms
    by (simp add: serve_def trending_request_def dispatch_trending_path parseInt_trending
        split_beta get_movie_fallback)
qed











section \<open>The claims\<close>

subsection \<open>C1: order of the list\<close>

text \<open>
  C1 says that the movies List returns are in descending order of rating for every
  genre, search, limit and offset, in particular when the answer is computed from the
  sample data. The database statements carry \<^verbatim>\<open>ORDER BY rating DESC\<close>; the in-memory
  branch filters and slices and never sorts. With the database out of reach and no
  parameter given, a process that has just started answers the six sample movies in the
  order of the array literal, ids 1 to 6, ratings 4.8, 4.5, 4.7, 4.2, 4.6, 4.4, which is not
  descending.
\<close>

theorem list_fallback_order:
  "map id' (r_movies (fst (list_movies unreachable None None Undefined Undefined (init_state b))))
     = [1, 2, 3, 4, 5, 6]
   \<and> map rating (r_movies (fst (list_movies unreachable None None Undefined Undefined (init_state b))))
     = [4.8, 4.5, 4.7, 4.2, 4.6, 4.4]
   \<and> \<not> descending (r_movies (fst (list_movies unreachable None None Undefined Undefined (init_state b))))"
  by (simp add: list_fallback_all map_id_movies_init map_rating_movies_init
      not_descending_ratings)

subsection \<open>C2: GetById when the database holds no such row\<close>

text \<open>
  C2 as it is written fails. The database \<^const>\<open>empty_store\<close> is reached and answers the
  lookup of id 1 with no row; the handler then looks the id up in \<^verbatim>\<open>movies\<close> and
  answers the sample movie with id 1, not the 404.
\<close>

theorem get_movie_store_miss_counterexample:
  "connects empty_store
   \<and> select empty_store (by_id_query (Some 1)) = Some []
   \<and> fst (get_movie empty_store (Some 1) (init_state ''your-movie-media-bucket'')) \<noteq> Inl not_found
   \<and> fst (get_movie empty_store (Some 1) (init_state ''your-movie-media-bucket''))
       = Inr (hd (movies_init ''your-movie-media-bucket''))"
proof -
  have "\<not> has_rows (fst (executeQuery (select empty_store) empty_store (by_id_query (Some 1))
                           (init_state ''your-movie-media-bucket'')))"
    by (simp add: empty_store_answers has_rows_def)
  then have "fst (get_movie empty_store (Some 1) (init_state ''your-movie-media-bucket''))
               = Inr (hd (movies_init ''your-movie-media-bucket''))"
    by (simp add: get_movie_fallback movies_init_state find_first_seed)
  then show ?thesis by (simp add: empty_store_def)
qed

text \<open>
  C2, amended. For every id, when the lookup in the database gives no row, be it because
  the database is reached and holds no row with that id or because it is out of reach,
  GetById looks the id up in the sample data: it answers the sample movie with that id when
  there is one and the 404 \<^verbatim>\<open>Movie not found\<close> otherwise. The guard
  \<^verbatim>\<open>dbMovie && dbMovie.length > 0\<close> sends both cases to the same fallback.
\<close>

theorem get_movie_store_miss:
  assumes "\<not> has_rows (fst (executeQuery (select e) e (by_id_query i) s))"
  shows "fst (get_movie e i s) =
           (case find (\<lambda>m. Some (id' m) = i) (movies s) of
              None \<Rightarrow> Inl not_found | Some m \<Rightarrow> Inr m)
         \<and> movies (snd (get_movie e i s)) = movies s"
  using assms
  by (simp add: get_movie_def split_beta Let_def executeQuery_movies split: option.splits)

text \<open>The amended C2 at a database that is reached and empty: id 7 is in neither source,
  id 1 is in the sample data.\<close>

theorem get_movie_store_miss_witness:
  "\<not> has_rows (fst (executeQuery (select empty_store) empty_store (by_id_query (Some 7))
                      (init_state ''b'')))
   \<and> fst (get_movie empty_store (Some 7) (init_state ''b'')) = Inl not_found
   \<and> fst (get_movie empty_store (Some 1) (init_state ''b'')) = Inr (hd (movies_init ''b''))"
proof -
  have h: "\<not> has_rows (fst (executeQuery (select empty_store) empty_store (by_id_query i)
                      (init_state ''b'')))" for i
    by (simp add: empty_store_answers has_rows_def)
  have "find (\<lambda>m. id' m = 7) (movies_init ''b'') = None"
    by (simp add: movies_init_def)
  then show ?thesis
    using h get_movie_store_miss [OF h, of "Some 7"] get_movie_store_miss [OF h, of "Some 1"]
    by (simp add: movies_init_state find_first_seed)
qed

subsection \<open>C3: recommendations when the database is out of reach\<close>

text \<open>
  C3 says that with the database out of reach RecommendationsFor answers from the sample
  data, and that for movie 1 the answer is an empty list with \<^verbatim>\<open>basedOn\<close>
  \<^verbatim>\<open>Quantum Nexus\<close> and genre \<^verbatim>\<open>sci-fi\<close>. The handler returns the 404 as soon as
  the lookup of the base movie gives nothing, which is what happens when the database is
  out of reach; the in-memory branch below that return is reached only when the lookup
  succeeded and the second statement failed. Then it answers what the claim expects.
\<close>

theorem recommendations_unreachable:
  "fst (recommendations_for unreachable (Some 1) limit_p (init_state b)) = Inl not_found
   \<and> fst (recommendations_for (lookup_only b) (Some 1) limit_p (init_state b))
       = Inr \<lparr>recommendations = [], basedOn = ''Quantum Nexus'', r_genre = ''sci-fi''\<rparr>"
proof -
  have "fst (recommendations_for unreachable (Some 1) limit_p (init_state b)) = Inl not_found"
    by (simp add: recommendations_for_def split_beta Let_def unreachable_answers has_rows_def)
  moreover
  have a: "fst (executeQuery (select (lookup_only b)) (lookup_only b) (by_id_query (Some 1)) s)
             = Some [hd (movies_init b)]" for s
    by (simp add: executeQuery_fst lookup_only_def by_id_query_def movies_init_def)
  have c: "fst (executeQuery (select (lookup_only b)) (lookup_only b) (recs_query g i n) s)
             = None" for g i n s
    by (simp add: executeQuery_fst lookup_only_def recs_query_def)
  have f: "filter (\<lambda>m. genre m = ''sci-fi'' \<and> id' m \<noteq> 1) (movies_init b) = []"
    by (simp add: movies_init_def)
  have "fst (recommendations_for (lookup_only b) (Some 1) limit_p (init_state b))
       = Inr \<lparr>recommendations = [], basedOn = ''Quantum Nexus'', r_genre = ''sci-fi''\<rparr>"
    by (simp add: recommendations_for_def split_beta Let_def a c has_rows_def
        executeQuery_movies movies_init_state find_first_seed title_first_seed genre_first_seed f
        js_sort_def slice_def)
  ultimately show ?thesis by simp
qed

subsection \<open>C4: reads and the sample data\<close>



subsection \<open>C5: total, page and limit of the list\<close>




subsection \<open>C6: trending\<close>

text \<open>
  C6 says that Trending answers the sample data sorted in descending order of rating and
  cut to the limit, with limit 3 Quantum Nexus, The Last Symphony, Digital Phantom. The
  handler written for it computes that. But the route \<^verbatim>\<open>/api/movies/:id\<close> is registered
  before \<^verbatim>\<open>/api/movies/trending\<close>: the request \<^verbatim>\<open>GET /api/movies/trending?limit=3\<close> runs
  the handler of the former with the id \<^verbatim>\<open>parseInt('trending')\<close>, which is \<^verbatim>\<open>NaN\<close>,
  and with the database out of reach the answer is the 404 \<^verbatim>\<open>Movie not found\<close>.
\<close>

theorem trending_request_not_found:
  "dispatch GET [''api'', ''movies'', ''trending''] = Some (ByIdRoute ''trending'')
   \<and> parseInt ''trending'' = None
   \<and> fst (serve unreachable (trending_request (Some ''3'')) (init_state b))
       = MovieR (Inl not_found)
   \<and> map title (fst (trending unreachable (Text (Some 3)) (init_state b)))
       = [''Quantum Nexus'', ''The Last Symphony'', ''Digital Phantom'']"
proof -
  have "\<not> has_rows (fst (executeQuery (select unreachable) unreachable (by_id_query None)
                           (init_state b)))"
    by (simp add: unreachable_answers has_rows_def)
  then have a: "fst (serve unreachable (trending_request (Some ''3'')) (init_state b))
                  = MovieR (Inl not_found)"
    by (rule serve_trending_request)
  have "\<not> has_rows (fst (executeQuery (select unreachable) unreachable
                           (trending_query (parse_or 6 (Text (Some 3)))) (init_state b)))"
    by (simp add: unreachable_answers has_rows_def)
  then have "fst (trending unreachable (Text (Some 3)) (init_state b))
               = take 3 (js_sort by_rating_desc (movies_init b))"
    by (simp add: trending_fallback_state movies_init_state parse_or_def slice_from_0)
  then have t: "map title (fst (trending unreachable (Text (Some 3)) (init_state b)))
       = [''Quantum Nexus'', ''The Last Symphony'', ''Digital Phantom'']"
    by (simp add: sorted_seed_titles flip: take_map)
  from a t show ?thesis
    by (simp add: dispatch_trending_path parseInt_trending)
qed

subsection \<open>C7: distinct genres\<close>

text \<open>
  C7. When the database gives no answer, DistinctGenres over the sample data, in whatever
  order the array holds it, answers exactly \<^verbatim>\<open>action, comedy, drama, sci-fi, thriller\<close>:
  sorted, without duplicates, five entries, although \<^verbatim>\<open>action\<close> is the genre of two
  sample movies.
\<close>

theorem genres_of_seed_set:
  assumes "fst (executeQuery (select_genre e) e genres_query s) = None"
    and "mset (movies s) = mset (movies_init b)"
  shows "fst (genres e s) = [''action'', ''comedy'', ''drama'', ''sci-fi'', ''thriller'']
         \<and> sorted (fst (genres e s)) \<and> distinct (fst (genres e s))
         \<and> length (fst (genres e s)) = 5
         \<and> count_list (map genre (movies s)) ''action'' = 2"
proof -
  have "set (movies s) = set (movies_init b)"
    using assms(2) by (rule mset_eq_setD)
  then have "set (map genre (movies s)) = set (map genre (movies_init b))"
    by simp
  then have st: "set [''action'', ''comedy'', ''drama'', ''sci-fi'', ''thriller'']
                   = set (map genre (movies s))"
    by (simp add: map_genre_movies_init insert_commute)
  have v: "fst (genres e s) = [''action'', ''comedy'', ''drama'', ''sci-fi'', ''thriller'']"
    using sort_dedupe_unique [OF five_genres_sorted st]
    by (simp add: genres_fallback_value [OF assms(1)])
  have eq: "mset (map genre (movies s)) = mset (map genre (movies_init b))"
    using assms(2) by (metis mset_map)
  have "count_list (map genre (movies s)) ''action''
          = count (mset (map genre (movies s))) ''action''"
    by (simp only: count_mset)
  also have "\<dots> = count (mset (map genre (movies_init b))) ''action''"
    by (simp only: eq)
  also have "\<dots> = 2"
    by (simp add: map_genre_movies_init)
  finally have c: "count_list (map genre (movies s)) ''action'' = 2" .
  from v c show ?thesis using five_genres_sorted by simp
qed

text \<open>C7 on a process that has just started, database out of reach.\<close>

theorem genres_of_seed_set_witness:
  "fst (executeQuery (select_genre unreachable) unreachable genres_query (init_state ''b'')) = None
   \<and> mset (movies (init_state ''b'')) = mset (movies_init ''b'')
   \<and> fst (genres unreachable (init_state ''b''))
       = [''action'', ''comedy'', ''drama'', ''sci-fi'', ''thriller'']"
proof -
  have h: "fst (executeQuery (select_genre unreachable) unreachable genres_query
                 (init_state ''b'')) = None"
    by (simp add: unreachable_answers)
  have m: "mset (movies (init_state ''b'')) = mset (movies_init ''b'')"
    by (simp add: movies_init_state)
  show ?thesis using h m genres_of_seed_set [OF h m] by simp
qed

subsection \<open>C8: the filter policy of the list\<close>

text \<open>
  C8. The two filters of List's in-memory branch keep exactly the movies the filter policy
  names, in their order: with a genre that is present and not \<^verbatim>\<open>all\<close> the movie's genre
  is that genre, and with a search term that is present the title or the description
  contains the term, letter case ignored. With the search term \<^verbatim>\<open>galaxy\<close> and nothing
  else, List over the sample data answers exactly Cosmic Comedy Club.
\<close>

theorem list_filter_policy:
  "search_filter search (genre_filter g ms) = filter (keeps g search) ms
   \<and> (m \<in> set (search_filter search (genre_filter g ms)) \<longleftrightarrow> m \<in> set ms \<and> keeps g search m)
   \<and> map title (r_movies (fst (list_movies unreachable None (Some ''galaxy'') Undefined Undefined
                                  (init_state b)))) = [''Cosmic Comedy Club'']"
  by (simp add: filters_are_keeps list_galaxy)

text \<open>C8 at genre \<^verbatim>\<open>action\<close> with the search term \<^verbatim>\<open>NEON\<close>: both conditions of the
  policy apply, and Neon Nights is the one movie kept.\<close>

theorem list_filter_policy_witness:
  "truthy (Some ''action'') \<and> Some ''action'' \<noteq> Some ''all'' \<and> truthy (Some ''NEON'')
   \<and> contains_ignoring_case ''Neon Nights'' ''NEON''
   \<and> map id' (filter (keeps (Some ''action'') (Some ''NEON'')) (movies_init ''b'')) = [6]"
proof -
  have "map id' (search_filter (Some ''NEON'') (genre_filter (Some ''action'') (movies_init ''b'')))
          = [6]"
    by (simp add: search_filter_def genre_filter_def truthy_def Let_def toLowerCase_def
        lower_char_Char movies_init_def)
  moreover have "contains_ignoring_case ''Neon Nights'' ''NEON''"
    by (simp add: includes'_lower [symmetric] toLowerCase_def lower_char_Char)
  ultimately show ?thesis
    using list_filter_policy [of "Some ''NEON''" "Some ''action''" "movies_init ''b''"]
    by (simp add: truthy_def)
qed

subsection \<open>C9: create\<close>

text \<open>
  C9. Create with an empty or absent title or genre answers the validation error 400 and
  returns the state as it was: no statement goes to the database and \<^verbatim>\<open>movies\<close> is
  untouched. With both present and the database giving nothing for the \<^verbatim>\<open>INSERT\<close>,
  Create answers the error 500 and \<^verbatim>\<open>movies\<close> is as before: there is no write in
  memory.
\<close>

theorem create_movie_validation:
  "(\<not> truthy (b_title b) \<or> \<not> truthy (b_genre b) \<longrightarrow>
      create_movie e b s = (Inl (Error 400 ''Title and genre are required''), s))
   \<and> (truthy (b_title b) \<and> truthy (b_genre b)
        \<and> fst (executeQuery (insert_row e) e (insertQuery b) s) = None \<longrightarrow>
      fst (create_movie e b s) = Inl (Error 500 ''Failed to add movie to database'')
      \<and> movies (snd (create_movie e b s)) = movies s)"
  by (auto simp: create_movie_def split_beta Let_def executeQuery_movies split: option.splits)

text \<open>C9 at an empty title, and at a good body with the database out of reach.\<close>

theorem create_movie_validation_witness:
  "\<not> truthy (b_title (title_genre_only (Some []) (Some ''drama'')))
   \<and> create_movie empty_store (title_genre_only (Some []) (Some ''drama'')) (init_state ''b'')
       = (Inl (Error 400 ''Title and genre are required''), init_state ''b'')
   \<and> sent (snd (create_movie empty_store (title_genre_only (Some []) (Some ''drama''))
                   (init_state ''b''))) = []
   \<and> truthy (b_title (title_genre_only (Some ''Heat'') (Some ''drama'')))
   \<and> truthy (b_genre (title_genre_only (Some ''Heat'') (Some ''drama'')))
   \<and> fst (executeQuery (insert_row unreachable) unreachable
             (insertQuery (title_genre_only (Some ''Heat'') (Some ''drama''))) (init_state ''b''))
       = None
   \<and> fst (create_movie unreachable (title_genre_only (Some ''Heat'') (Some ''drama''))
             (init_state ''b''))
       = Inl (Error 500 ''Failed to add movie to database'')"
proof -
  have t: "\<not> truthy (b_title (title_genre_only (Some []) (Some ''drama'')))"
    "truthy (b_title (title_genre_only (Some ''Heat'') (Some ''drama'')))"
    "truthy (b_genre (title_genre_only (Some ''Heat'') (Some ''drama'')))"
    by (simp_all add: title_genre_only_def truthy_def)
  have u: "fst (executeQuery (insert_row unreachable) unreachable
             (insertQuery (title_genre_only (Some ''Heat'') (Some ''drama''))) (init_state ''b''))
       = None"
    by (rule unreachable_answers)
  have n: "sent (init_state ''b'') = []"
    by (simp add: init_state_def)
  show ?thesis
    using t u n
      create_movie_validation [of "title_genre_only (Some []) (Some ''drama'')" empty_store
        "init_state ''b''"]
      create_movie_validation [of "title_genre_only (Some ''Heat'') (Some ''drama'')" unreachable
        "init_state ''b''"]
    by simp
qed

subsection \<open>C10: the sample data and what the handlers do to it\<close>

text \<open>
  C10. The sample data is six records with the ids 1 to 6, each with a non-empty title, a
  non-empty genre and a rating with one decimal place. List, GetById, Create,
  RecommendationsFor and DistinctGenres leave the array \<^verbatim>\<open>movies\<close> as it is; Trending
  may reorder it and keeps its elements, each as often as before.
\<close>

theorem seed_set_invariant:
  "length (movies_init b) = 6
   \<and> map id' (movies_init b) = [1, 2, 3, 4, 5, 6]
   \<and> distinct (map id' (movies_init b))
   \<and> list_all (\<lambda>m. title m \<noteq> [] \<and> genre m \<noteq> [] \<and> one_decimal (rating m)) (movies_init b)
   \<and> movies (snd (list_movies e g search limit_p offset_p s)) = movies s
   \<and> movies (snd (get_movie e i s)) = movies s
   \<and> movies (snd (create_movie e bd s)) = movies s
   \<and> movies (snd (recommendations_for e i limit_p s)) = movies s
   \<and> movies (snd (genres e s)) = movies s
   \<and> mset (movies (snd (trending e limit_p s))) = mset (movies s)"
  by (simp add: length_movies_init map_id_movies_init seed_fields handlers_keep_movies
      trending_movies_mset)

text \<open>C10 on a process that has just started: a Create that gets past the validation and
  a Trending that sorts in memory both leave the six sample movies in \<^verbatim>\<open>movies\<close>.\<close>

theorem seed_set_invariant_witness:
  "truthy (b_title (title_genre_only (Some ''Heat'') (Some ''drama'')))
   \<and> truthy (b_genre (title_genre_only (Some ''Heat'') (Some ''drama'')))
   \<and> movies (snd (create_movie empty_store (title_genre_only (Some ''Heat'') (Some ''drama''))
                     (init_state ''b''))) = movies_init ''b''
   \<and> mset (movies (snd (trending unreachable Undefined (init_state ''b''))))
       = mset (movies_init ''b'')
   \<and> length (movies (snd (trending unreachable Undefined (init_state ''b'')))) = 6"
proof -
  have t: "truthy (b_title (title_genre_only (Some ''Heat'') (Some ''drama'')))"
    "truthy (b_genre (title_genre_only (Some ''Heat'') (Some ''drama'')))"
    by (simp_all add: title_genre_only_def truthy_def)
  have m: "mset (movies (snd (trending unreachable Undefined (init_state ''b''))))
             = mset (movies_init ''b'')"
    using seed_set_invariant [of "''b''" unreachable None None Undefined Undefined
        "init_state ''b''" None "title_genre_only None None"]
    by (simp add: movies_init_state)
  then have "length (movies (snd (trending unreachable Undefined (init_state ''b''))))
               = length (movies_init ''b'')"
    by (rule mset_eq_length)
  with t m show ?thesis
    using seed_set_invariant [of "''b''" empty_store None None Undefined Undefined
        "init_state ''b''" None "title_genre_only (Some ''Heat'') (Some ''drama'')"]
    by (simp add: movies_init_state)
qed

end
